theory Spec2Isabelle
  imports Main "HOL-Library.Sublist"
begin

section \<open>Python string operations used by \<open>smart.py\<close>\<close>

text \<open>
  Python strings are modelled as \<open>string\<close> (a list of characters). The operations
  below are the ones \<open>binwalk/core/smart.py\<close> calls on them: \<open>find\<close>, \<open>in\<close>,
  \<open>split\<close>, \<open>replace\<close>, \<open>startswith\<close> (the library's \<open>prefix\<close>), \<open>strip\<close>,
  slicing \<open>s[:k]\<close>, the format \<open>"%d" % n\<close>, and the one regular expression of the file.
\<close>

text \<open>\<open>s.find(sub)\<close>: the least index at which \<open>sub\<close> occurs, \<open>None\<close> for Python's \<open>-1\<close>.\<close>

primrec py_find :: "string \<Rightarrow> string \<Rightarrow> nat option" where
  "py_find sub [] = (if sub = [] then Some 0 else None)"
| "py_find sub (c # cs) =
     (if prefix sub (c # cs) then Some 0 else map_option Suc (py_find sub cs))"

definition py_find_int :: "string \<Rightarrow> string \<Rightarrow> int" where
  "py_find_int sub s = (case py_find sub s of None \<Rightarrow> - 1 | Some i \<Rightarrow> int i)"

text \<open>\<open>sub in s\<close>.\<close>

definition py_in :: "string \<Rightarrow> string \<Rightarrow> bool" where
  "py_in sub s = (py_find sub s \<noteq> None)"

lemma py_find_bound: "py_find sub s = Some i \<Longrightarrow> i + length sub \<le> length s"
proof (induction s arbitrary: i)
  case Nil
  then show ?case by (simp split: if_splits)
next
  case (Cons c cs)
  show ?case
  proof (cases "prefix sub (c # cs)")
    case True
    with Cons.prems have "i = 0" by simp
    with prefix_length_le [OF True] show ?thesis by simp
  next
    case False
    with Cons.prems obtain j where "py_find sub cs = Some j" and "i = Suc j" by auto
    with Cons.IH show ?thesis by simp
  qed
qed

text \<open>
  \<open>s.split(sep)\<close>: the pieces between the non-overlapping occurrences of \<open>sep\<close>, found
  from the left. Python raises \<open>ValueError\<close> on an empty separator; every call in
  \<open>smart.py\<close> passes a non-empty constant, and the model returns \<open>[s]\<close> there.
\<close>

function py_split :: "string \<Rightarrow> string \<Rightarrow> string list" where
  "py_split sep s =
     (if sep = [] then [s]
      else (case py_find sep s of
              None \<Rightarrow> [s]
            | Some i \<Rightarrow> take i s # py_split sep (drop (i + length sep) s)))"
  by pat_completeness auto
termination
proof (relation "measure (\<lambda>(sep, s). length s)")
  show "wf (measure (\<lambda>(sep, s). length s))" by simp
next
  fix sep s :: string and i
  assume ne: "sep \<noteq> []" and f: "py_find sep s = Some i"
  from py_find_bound [OF f] ne have "s \<noteq> []" by auto
  with ne show "((sep, drop (i + length sep) s), (sep, s)) \<in> measure (\<lambda>(sep, s). length s)"
    by simp
qed

declare py_split.simps [simp del]

text \<open>
  \<open>s.replace(old, new)\<close>: every non-overlapping occurrence of \<open>old\<close>, from the left, is
  replaced by \<open>new\<close>. For an empty \<open>old\<close> Python inserts \<open>new\<close> before every character
  and at the end.
\<close>

function py_replace :: "string \<Rightarrow> string \<Rightarrow> string \<Rightarrow> string" where
  "py_replace old new s =
     (if old = [] then new @ concat (map (\<lambda>c. c # new) s)
      else (case py_find old s of
              None \<Rightarrow> s
            | Some i \<Rightarrow> take i s @ new @ py_replace old new (drop (i + length old) s)))"
  by pat_completeness auto
termination
proof (relation "measure (\<lambda>(old, new, s). length s)")
  show "wf (measure (\<lambda>(old, new, s). length s))" by simp
next
  fix old new s :: string and i
  assume ne: "old \<noteq> []" and f: "py_find old s = Some i"
  from py_find_bound [OF f] ne have "s \<noteq> []" by auto
  with ne show "((old, new, drop (i + length old) s), (old, new, s))
      \<in> measure (\<lambda>(old, new, s). length s)"
    by simp
qed

declare py_replace.simps [simp del]

text \<open>\<open>s.strip(c)\<close> for a one-character argument.\<close>

definition py_strip :: "char \<Rightarrow> string \<Rightarrow> string" where
  "py_strip c s = rev (dropWhile (\<lambda>x. x = c) (rev (dropWhile (\<lambda>x. x = c) s)))"

text \<open>
  The slice \<open>s[:k]\<close>: the first \<open>k\<close> characters for \<open>k \<ge> 0\<close>, all but the last \<open>-k\<close>
  characters for \<open>k < 0\<close> (nothing when \<open>-k\<close> is at least the length).
\<close>

definition py_slice_to :: "string \<Rightarrow> int \<Rightarrow> string" where
  "py_slice_to s k = (if 0 \<le> k then take (nat k) s else take (length s - nat (- k)) s)"

text \<open>\<open>"%d" % n\<close> for an integer \<open>n\<close>.\<close>

definition digit_char :: "nat \<Rightarrow> char" where
  "digit_char d = ''0123456789'' ! d"

fun nat_digits :: "nat \<Rightarrow> string" where
  "nat_digits n = (if n < 10 then [digit_char n] else nat_digits (n div 10) @ [digit_char (n mod 10)])"

declare nat_digits.simps [simp del]

definition py_format_d :: "int \<Rightarrow> string" where
  "py_format_d n = (if n < 0 then CHR ''-'' # nat_digits (nat (- n)) else nat_digits (nat n))"

text \<open>
  \<open>re.match('^-?[0-9]+$', s)\<close>: an optional minus sign, one or more ASCII digits, and
  the end of the string, which \<open>$\<close> also accepts just before one final newline.
\<close>

definition is_digit :: "char \<Rightarrow> bool" where
  "is_digit c = (c \<in> set ''0123456789'')"

definition match_int_pattern :: "string \<Rightarrow> bool" where
  "match_int_pattern s =
     (let t = (case s of [] \<Rightarrow> [] | c # r \<Rightarrow> if c = CHR ''-'' then r else s);
          u = (if t \<noteq> [] \<and> last t = CHR 0x0A then butlast t else t)
      in u \<noteq> [] \<and> list_all is_digit u)"

section \<open>The collaborators of \<open>SmartSignature\<close>\<close>

text \<open>
  \<open>smart.py\<close> imports \<open>str2int\<close>, \<open>get_quoted_strings\<close> and \<open>MathExpression\<close> from
  \<open>binwalk.core.common\<close>, and its constructor is handed a filter object
  (\<open>self.filter\<close>, never assigned again); none of them is part of the file. They are
  parameters of the model:
  \<^item> \<open>get_quoted_strings\<close> returns the quoted data of a string. \<open>_is_valid\<close> tests
    its truth and asks whether the delimiter and the keyword texts are \<open>in\<close> it: it
    is a string, and \<open>in\<close> is the substring test;
  \<^item> \<open>MathExpression_value arg\<close> is \<open>MathExpression(arg).value\<close>, \<open>None\<close> when the
    expression has no value; the numbers are integers here (\<open>_replace_maths\<close> formats
    them with \<open>%d\<close>);
  \<^item> \<open>str2int\<close> is applied to a string (\<open>year\<close>, \<open>epoch\<close>, the raw size) and to the
    number \<open>_get_math_arg\<close> returned (\<open>size\<close>); \<open>None\<close> stands for the exception it
    raises;
  \<^item> \<open>valid_result\<close> is \<open>self.filter.valid_result\<close>.
\<close>

datatype pyval = PyStr string | PyInt int

datatype error = ValueError

record env =
  get_quoted_strings :: "string \<Rightarrow> string"
  MathExpression_value :: "string \<Rightarrow> int option"
  str2int :: "pyval \<Rightarrow> int option"
  valid_result :: "string \<Rightarrow> bool"

section \<open>\<open>class SmartSignature\<close>\<close>

definition KEYWORD_DELIM_START :: string where
  "KEYWORD_DELIM_START = ''{''"

definition KEYWORD_DELIM_END :: string where
  "KEYWORD_DELIM_END = ''}''"

text \<open>
  The dictionary \<open>KEYWORDS\<close>. \<open>_is_valid\<close> and \<open>_strip_tags\<close> iterate over it;
  the list keeps the order in which the source writes the entries.
\<close>

definition KEYWORDS :: "(string \<times> string) list" where
  "KEYWORDS =
    [(''jump'', ''{jump-to-offset:''),
     (''filename'', ''{file-name:''),
     (''filesize'', ''{file-size:''),
     (''raw-string'', ''{raw-string:''),
     (''string-len'', ''{string-len:''),
     (''raw-size'', ''{raw-string-length:''),
     (''adjust'', ''{offset-adjust:''),
     (''delay'', ''{extract-delay:''),
     (''year'', ''{file-year:''),
     (''epoch'', ''{file-epoch:''),
     (''math'', ''{math:''),
     (''raw-replace'', ''{raw-replace}''),
     (''one-of-many'', ''{one-of-many}''),
     (''string-len-replace'', ''{string-len}'')]"

text \<open>\<open>self.KEYWORDS[k]\<close> for the constant keys the source indexes with.\<close>

definition keyword :: "string \<Rightarrow> string" where
  "keyword k = (case map_of KEYWORDS k of Some kw \<Rightarrow> kw | None \<Rightarrow> [])"

text \<open>
  The instance: \<open>self.valid\<close>, \<open>self.last_one_of_many\<close> and
  \<open>self.ignore_smart_signatures\<close>.
\<close>

record SmartSignature =
  self_valid :: bool
  last_one_of_many :: "string option"
  ignore_smart_signatures :: bool

definition init :: "bool \<Rightarrow> SmartSignature" where
  "init ignore =
     \<lparr>self_valid = True, last_one_of_many = None, ignore_smart_signatures = ignore\<rparr>"

text \<open>The dictionary \<open>results\<close> that \<open>parse\<close> returns as a \<open>Result\<close>.\<close>

record Result =
  offset :: string
  description :: string
  name :: string
  delay :: string
  extract_field :: string
  jump :: int
  size_field :: int
  adjust :: int
  year :: int
  epoch :: int
  valid :: bool

definition results0 :: Result where
  "results0 =
     \<lparr>offset = [], description = [], name = [], delay = [], extract_field = [],
      jump = 0, size_field = 0, adjust = 0, year = 0, epoch = 0, valid = True\<rparr>"

definition is_valid :: "env \<Rightarrow> string \<Rightarrow> bool" where
  "is_valid E data =
     (let quoted_data = get_quoted_strings E data
      in if quoted_data \<noteq> [] \<and> py_in KEYWORD_DELIM_START quoted_data
         then \<not> list_ex (\<lambda>(nm, kw). py_in kw quoted_data) KEYWORDS
         else True)"

definition one_of_many :: "env \<Rightarrow> SmartSignature \<Rightarrow> string \<Rightarrow> bool \<times> SmartSignature" where
  "one_of_many E self data =
     (if valid_result E data then
        (if last_one_of_many self \<noteq> None \<and> prefix (the (last_one_of_many self)) data
         then (True, self)
         else if py_in (keyword ''one-of-many'') data
              then (False, self\<lparr>last_one_of_many := Some (hd (py_split '','' data))\<rparr>)
              else (False, self\<lparr>last_one_of_many := None\<rparr>))
      else (False, self))"

definition get_keyword_arg :: "string \<Rightarrow> string \<Rightarrow> string" where
  "get_keyword_arg data k =
     (case map_of KEYWORDS k of
        None \<Rightarrow> []
      | Some kw \<Rightarrow>
          if py_in kw data
          then hd (py_split KEYWORD_DELIM_END (py_split kw data ! 1))
          else [])"

definition get_math_arg :: "env \<Rightarrow> SmartSignature \<Rightarrow> string \<Rightarrow> string \<Rightarrow> int \<times> SmartSignature" where
  "get_math_arg E self data k =
     (let arg = get_keyword_arg data k
      in if arg \<noteq> []
         then (case MathExpression_value E arg of
                 None \<Rightarrow> (0, self\<lparr>self_valid := False\<rparr>)
               | Some v \<Rightarrow> (v, self))
         else (0, self))"

text \<open>
  The \<open>while\<close> loop of \<open>_replace_maths\<close>; \<open>None\<close> is a loop that does not end.
\<close>

partial_function (option) replace_maths ::
  "env \<Rightarrow> SmartSignature \<Rightarrow> string \<Rightarrow> (string \<times> SmartSignature) option" where
  "replace_maths E self data =
     (if py_in (keyword ''math'') data
      then (let arg = get_keyword_arg data ''math'';
                v = keyword ''math'' @ arg @ KEYWORD_DELIM_END;
                r = get_math_arg E self data ''math''
            in replace_maths E (snd r) (py_replace v (py_format_d (fst r)) data))
      else Some (data, self))"

declare replace_maths.simps [code]

text \<open>
  \<open>_parse_raw_strings\<close>; \<open>str2int\<close> is called outside any \<open>try\<close>, so its exception
  leaves the method.
\<close>

definition parse_raw_strings :: "env \<Rightarrow> SmartSignature \<Rightarrow> string \<Rightarrow> error + string" where
  "parse_raw_strings E self data =
     (if \<not> ignore_smart_signatures self \<and> is_valid E data then
        (let raw_string = get_keyword_arg data ''raw-string''
         in if raw_string \<noteq> [] then
              (let raw_size = get_keyword_arg data ''raw-size''
               in if match_int_pattern raw_size then
                    (case str2int E (PyStr raw_size) of
                       None \<Rightarrow> Inl ValueError
                     | Some n \<Rightarrow>
                         Inr (py_replace (keyword ''raw-replace'')
                                (''\"'' @ py_slice_to raw_string n @ ''\"'')
                                (py_slice_to data (py_find_int (keyword ''raw-string'') data))))
                  else Inr data)
            else Inr data)
      else Inr data)"

definition parse_string_len :: "env \<Rightarrow> SmartSignature \<Rightarrow> string \<Rightarrow> string" where
  "parse_string_len E self data =
     (if \<not> ignore_smart_signatures self \<and> is_valid E data then
        (let raw_string = get_keyword_arg data ''string-len''
         in if raw_string \<noteq> [] then
              (let string_length = py_format_d (int (length raw_string))
               in py_replace (keyword ''string-len-replace'') string_length
                    (hd (py_split (keyword ''string-len'') data)))
            else data)
      else data)"

text \<open>One round of the loop of \<open>_strip_tags\<close>, then the method.\<close>

definition strip_tag :: "string \<Rightarrow> string \<Rightarrow> string" where
  "strip_tag kw data =
     (case py_find kw data of
        None \<Rightarrow> data
      | Some start \<Rightarrow>
          (case py_find KEYWORD_DELIM_END (drop start data) of
             None \<Rightarrow> data
           | Some e \<Rightarrow> py_replace (take (e + 1) (drop start data)) [] data))"

definition strip_tags :: "SmartSignature \<Rightarrow> string \<Rightarrow> string" where
  "strip_tags self data =
     (if \<not> ignore_smart_signatures self
      then fold (\<lambda>(nm, kw) d. strip_tag kw d) KEYWORDS data
      else data)"

text \<open>
  The conversions of \<open>parse\<close> that sit in \<open>try: ... except Exception: pass\<close>: the field
  keeps its initial 0 when \<open>str2int\<close> raises.
\<close>

definition str2int_or_0 :: "env \<Rightarrow> pyval \<Rightarrow> int" where
  "str2int_or_0 E x = (case str2int E x of None \<Rightarrow> 0 | Some n \<Rightarrow> n)"

text \<open>
  The three substitution passes at the head of the \<open>else\<close> branch of \<open>parse\<close>
  (\<open>_replace_maths\<close>, \<open>_parse_raw_strings\<close>, \<open>_parse_string_len\<close>) and the rest of the
  branch, on the string they produce.
\<close>

definition resolve ::
  "env \<Rightarrow> SmartSignature \<Rightarrow> string \<Rightarrow> ((error + string) \<times> SmartSignature) option" where
  "resolve E self data =
     (case replace_maths E self data of
        None \<Rightarrow> None
      | Some (d1, self1) \<Rightarrow>
          (case parse_raw_strings E self1 d1 of
             Inl e \<Rightarrow> Some (Inl e, self1)
           | Inr d2 \<Rightarrow> Some (Inr (parse_string_len E self1 d2), self1)))"

definition extract_fields :: "env \<Rightarrow> SmartSignature \<Rightarrow> string \<Rightarrow> Result \<times> SmartSignature" where
  "extract_fields E self data =
     (let (adjust_v, self1) = get_math_arg E self data ''adjust'';
          (size_m, self2) = get_math_arg E self1 data ''filesize'';
          size_v = str2int_or_0 E (PyInt size_m);
          year_v = str2int_or_0 E (PyStr (get_keyword_arg data ''year''));
          epoch_v = str2int_or_0 E (PyStr (get_keyword_arg data ''epoch''));
          delay_v = get_keyword_arg data ''delay'';
          (jump_v, self3) = get_math_arg E self2 data ''jump'';
          (dup, self4) = one_of_many E self3 data;
          res = results0\<lparr>adjust := adjust_v, size_field := size_v, year := year_v,
                  epoch := epoch_v, delay := delay_v, jump := jump_v\<rparr>;
          res' = (if \<not> dup
                  then res\<lparr>name := py_strip CHR 0x22 (get_keyword_arg data ''filename''),
                          description := strip_tags self4 data\<rparr>
                  else res)
      in (res'\<lparr>valid := self_valid self4\<rparr>, self4))"

text \<open>
  \<open>parse\<close>: \<open>None\<close> when the call does not return, \<open>Inl\<close> when it raises, and the
  instance as the call leaves it.
\<close>

definition parse ::
  "env \<Rightarrow> SmartSignature \<Rightarrow> string \<Rightarrow> ((error + Result) \<times> SmartSignature) option" where
  "parse E self data =
     (let self0 = self\<lparr>self_valid := True\<rparr>
      in if ignore_smart_signatures self0 \<or> \<not> is_valid E data
         then Some (Inr (results0\<lparr>description := data, valid := self_valid self0\<rparr>), self0)
         else (case resolve E self0 data of
                 None \<Rightarrow> None
               | Some (Inl e, self1) \<Rightarrow> Some (Inl e, self1)
               | Some (Inr d, self1) \<Rightarrow>
                   (let (res, self2) = extract_fields E self1 d in Some (Inr res, self2))))"

section \<open>An instance of the collaborators\<close>

text \<open>
  The theorems below hold for every \<open>env\<close>. To evaluate them at concrete strings, this
  section gives one instance of the four collaborators, none of which is part of
  \<open>smart.py\<close>.
\<close>

text \<open>
  Modelled from the spec: the quoted-string extractor (section 6, \<open>extract_quoted\<close>),
  whose code is missing. This instance returns the text between the first and the last
  double quote of the string, and the empty string when there are fewer than two.
\<close>

definition quoted_between :: "string \<Rightarrow> string" where
  "quoted_between s =
     (case py_find ''\"'' s of
        None \<Rightarrow> []
      | Some i \<Rightarrow>
          (let r = drop (Suc i) s
           in (case py_find ''\"'' (rev r) of
                 None \<Rightarrow> []
               | Some j \<Rightarrow> take (length r - Suc j) r)))"

text \<open>The value of a string of decimal digits.\<close>

definition digit_val :: "char \<Rightarrow> int" where
  "digit_val c = (case py_find [c] ''0123456789'' of None \<Rightarrow> 0 | Some d \<Rightarrow> int d)"

definition dec_value :: "string \<Rightarrow> int" where
  "dec_value s = foldl (\<lambda>a c. 10 * a + digit_val c) 0 s"

definition is_literal :: "string \<Rightarrow> bool" where
  "is_literal s = (s \<noteq> [] \<and> list_all is_digit s)"

text \<open>
  Modelled from the spec: the math evaluator (section 6,
  \<open>evaluate(expression) -> number | invalid\<close>), whose code is missing. This instance
  gives the value of a sum of decimal literals (\<open>4+4\<close>, \<open>8\<close>) and no value for any
  other text.
\<close>

definition eval_sum :: "string \<Rightarrow> int option" where
  "eval_sum s =
     (let parts = py_split ''+'' s
      in if list_all is_literal parts then Some (sum_list (map dec_value parts)) else None)"

text \<open>
  Modelled from the spec: the numeric conversion of field extraction (\<open>str2int\<close>),
  whose code is missing. This instance returns a number as it is, converts a decimal
  literal with an optional minus sign, and raises on any other text.
\<close>

fun to_int :: "pyval \<Rightarrow> int option" where
  "to_int (PyInt n) = Some n"
| "to_int (PyStr s) =
     (case s of
        [] \<Rightarrow> None
      | c # r \<Rightarrow>
          if c = CHR ''-'' then (if is_literal r then Some (- dec_value r) else None)
          else (if is_literal s then Some (dec_value s) else None))"

text \<open>
  Modelled from the spec: the plausibility filter (section 6,
  \<open>is_plausible_candidate\<close>), whose code is missing. In this instance it accepts
  every string.
\<close>

definition std_env :: env where
  "std_env = \<lparr>get_quoted_strings = quoted_between, MathExpression_value = eval_sum,
               str2int = to_int, valid_result = (\<lambda>s. True)\<rparr>"

text \<open>A parser as the constructor builds it, with interpretation enabled.\<close>

definition fresh :: SmartSignature where
  "fresh = init False"

text \<open>
  A parser that has stored the group key \<open>abc\<close>: the state \<open>fresh\<close> is in after
  parsing \<open>abc,{one-of-many}\<close>.
\<close>

definition keyed :: SmartSignature where
  "keyed = fresh\<lparr>last_one_of_many := Some ''abc''\<rparr>"

text \<open>
  A math argument is in order when the tag is absent (or its argument empty) or the
  evaluator gives it a value: the cases in which \<open>_get_math_arg\<close> leaves
  \<open>self.valid\<close> alone.
\<close>

definition math_ok :: "env \<Rightarrow> string \<Rightarrow> string \<Rightarrow> bool" where
  "math_ok E data k =
     (get_keyword_arg data k = [] \<or> MathExpression_value E (get_keyword_arg data k) \<noteq> None)"

text \<open>The strings the theorems are evaluated at.\<close>

definition injected_input :: string where
  "injected_input = ''\"{jump-to-offset:0}\" trailer {file-name:\"x\"}''"


definition unclosed_math :: string where
  "unclosed_math = ''{math:1+1''"





text \<open>Strings with a raw-string tag and raw sizes 5, \<open>5x\<close>, -3 and -30.\<close>


definition raw_input :: string where
  "raw_input = ''{raw-replace}{raw-string:HELLOWORLD}{raw-string-length:5}''"

definition raw_input_bad_size :: string where
  "raw_input_bad_size = ''{raw-replace}{raw-string:HELLOWORLD}{raw-string-length:5x}''"

definition raw_input_negative :: string where
  "raw_input_negative = ''{raw-replace}{raw-string:HELLOWORLD}{raw-string-length:-3}''"

definition raw_input_very_negative :: string where
  "raw_input_very_negative = ''{raw-replace}{raw-string:HELLOWORLD}{raw-string-length:-30}''"

text \<open>
  Two strings with the marker behind a string-len tag, and two strings of one group.
\<close>

definition truncated_marker_input :: string where
  "truncated_marker_input = ''a, {string-len:xx}{one-of-many}''"

definition truncated_marker_second :: string where
  "truncated_marker_second = ''a, b{string-len:yyy}{one-of-many}''"

definition group_first :: string where
  "group_first = ''abc, first{one-of-many}{jump-to-offset:4}''"

definition group_second :: string where
  "group_second = ''abc, second{one-of-many}{jump-to-offset:8}{offset-adjust:2}''"

text \<open>
  The stored group key holds no comma: \<open>_one_of_many\<close> only ever stores
  \<open>data.split(',')[0]\<close>.
\<close>

definition key_ok :: "SmartSignature \<Rightarrow> bool" where
  "key_ok self = (case last_one_of_many self of None \<Rightarrow> True | Some k \<Rightarrow> CHR '','' \<notin> set k)"

section \<open>Facts about the extractor and the stripper\<close>

lemma replace_maths_no_math:
  "\<not> py_in (keyword ''math'') data \<Longrightarrow> replace_maths E self data = Some (data, self)"
  by (subst replace_maths.simps) simp

lemma get_keyword_arg_absent:
  assumes "\<forall>(nm, kw) \<in> set KEYWORDS. \<not> py_in kw data"
  shows "get_keyword_arg data k = []"
proof (cases "map_of KEYWORDS k")
  case None
  then show ?thesis by (simp add: get_keyword_arg_def)
next
  case (Some kw)
  then have "(k, kw) \<in> set KEYWORDS" by (rule map_of_SomeD)
  with assms have "\<not> py_in kw data" by blast
  with Some show ?thesis by (simp add: get_keyword_arg_def)
qed

lemma strip_tag_absent: "\<not> py_in kw data \<Longrightarrow> strip_tag kw data = data"
  by (simp add: strip_tag_def py_in_def)

lemma fold_strip_tag_absent:
  "\<forall>(nm, kw) \<in> set ks. \<not> py_in kw data \<Longrightarrow>
     fold (\<lambda>(nm, kw) d. strip_tag kw d) ks data = data"
  by (induction ks) (auto simp: strip_tag_absent)

lemma is_valid_rejects:
  assumes "py_in KEYWORD_DELIM_START (get_quoted_strings E data)"
    and "(nm, kw) \<in> set KEYWORDS"
    and "py_in kw (get_quoted_strings E data)"
  shows "\<not> is_valid E data"
proof -
  from assms(1) have "get_quoted_strings E data \<noteq> []"
    by (auto simp: py_in_def KEYWORD_DELIM_START_def)
  moreover from assms(2,3)
  have "list_ex (\<lambda>(nm, kw). py_in kw (get_quoted_strings E data)) KEYWORDS"
    unfolding list_ex_iff by blast
  ultimately show ?thesis using assms(1) by (simp add: is_valid_def Let_def)
qed

lemma tag_free_absent:
  "\<not> list_ex (\<lambda>(nm, kw). py_in kw data) KEYWORDS \<Longrightarrow>
     \<forall>(nm, kw) \<in> set KEYWORDS. \<not> py_in kw data"
  unfolding list_ex_iff by blast

lemma math_in_KEYWORDS: "(''math'', keyword ''math'') \<in> set KEYWORDS"
  by code_simp

lemma keyword_one_of_many: "keyword ''one-of-many'' = ''{one-of-many}''"
  by code_simp

lemma py_strip_Nil: "py_strip c [] = []"
  by (simp add: py_strip_def)

text \<open>The first piece of a split at a one-character separator is the text before it.\<close>

lemma py_find_single:
  "py_find [c] s = (if c \<in> set s then Some (length (takeWhile (\<lambda>x. x \<noteq> c) s)) else None)"
  by (induction s) auto

lemma hd_py_split_single: "hd (py_split [c] s) = takeWhile (\<lambda>x. x \<noteq> c) s"
proof (cases "c \<in> set s")
  case True
  then show ?thesis
    by (subst py_split.simps) (simp add: py_find_single takeWhile_eq_take [symmetric])
next
  case False
  then have eq: "takeWhile (\<lambda>x. x \<noteq> c) s = s" by (induction s) auto
  show ?thesis by (subst py_split.simps) (simp add: py_find_single False eq)
qed

subsection \<open>\<open>_get_math_arg\<close> and \<open>_one_of_many\<close>\<close>

lemma get_math_arg_snd:
  "snd (get_math_arg E self data k) = self\<lparr>self_valid := self_valid self \<and> math_ok E data k\<rparr>"
  by (simp add: get_math_arg_def math_ok_def Let_def split: option.splits)


lemma get_math_arg_fst_indep:
  "fst (get_math_arg E self data k) = fst (get_math_arg E self' data k)"
  by (simp add: get_math_arg_def Let_def split: option.splits)

lemma get_math_arg_absent:
  "get_keyword_arg data k = [] \<Longrightarrow> get_math_arg E self data k = (0, self)"
  by (simp add: get_math_arg_def)

lemma one_of_many_fst:
  "fst (one_of_many E self data) \<longleftrightarrow>
     valid_result E data \<and> (\<exists>k. last_one_of_many self = Some k \<and> prefix k data)"
  by (auto simp: one_of_many_def)

lemma one_of_many_snd:
  "snd (one_of_many E self data) =
     (if valid_result E data \<and> \<not> fst (one_of_many E self data)
      then self\<lparr>last_one_of_many :=
                  if py_in (keyword ''one-of-many'') data
                  then Some (takeWhile (\<lambda>c. c \<noteq> CHR '','') data) else None\<rparr>
      else self)"
  by (auto simp: one_of_many_def hd_py_split_single)

subsection \<open>The substitution passes on a string without tags\<close>

lemma resolve_tag_free:
  assumes "\<not> list_ex (\<lambda>(nm, kw). py_in kw data) KEYWORDS"
  shows "resolve E self data = Some (Inr data, self)"
proof -
  note a = tag_free_absent [OF assms]
  from a math_in_KEYWORDS have "\<not> py_in (keyword ''math'') data" by blast
  then have "replace_maths E self data = Some (data, self)" by (rule replace_maths_no_math)
  moreover have "parse_raw_strings E self data = Inr data"
    by (simp add: parse_raw_strings_def get_keyword_arg_absent [OF a])
  moreover have "parse_string_len E self data = data"
    by (simp add: parse_string_len_def get_keyword_arg_absent [OF a])
  ultimately show ?thesis by (simp add: resolve_def)
qed

subsection \<open>\<open>parse\<close> on an accepted string, field by field\<close>

lemma parse_accepted:
  assumes "\<not> ignore_smart_signatures self" and "is_valid E data"
    and "resolve E (self\<lparr>self_valid := True\<rparr>) data = Some (Inr d, self1)"
  shows "parse E self data =
           Some (Inr (fst (extract_fields E self1 d)), snd (extract_fields E self1 d))"
  using assms by (simp add: parse_def Let_def case_prod_beta)

lemma parse_not_returning:
  assumes "\<not> ignore_smart_signatures self" and "is_valid E data"
    and "replace_maths E (self\<lparr>self_valid := True\<rparr>) data = None"
  shows "parse E self data = None"
  using assms by (simp add: parse_def resolve_def Let_def)



lemma extract_fields_jump:
  "jump (fst (extract_fields E self data)) = fst (get_math_arg E self data ''jump'')"
  by (simp add: extract_fields_def Let_def case_prod_beta results0_def get_math_arg_def
      split: option.splits)

lemma extract_fields_adjust:
  "adjust (fst (extract_fields E self data)) = fst (get_math_arg E self data ''adjust'')"
  by (simp add: extract_fields_def Let_def case_prod_beta results0_def)




subsection \<open>The loop of \<open>_replace_maths\<close>\<close>

lemma py_find_Nil: "py_find [] s = Some 0"
  by (cases s) simp_all

lemma py_replace_absent: "\<not> py_in old s \<Longrightarrow> py_replace old new s = s"
  by (subst py_replace.simps) (auto simp: py_in_def py_find_Nil)

text \<open>
  When the text \<open>{math:\<close>, the argument and \<open>}\<close> that the loop looks for is not in the
  string, \<open>replace\<close> changes nothing and the loop runs again on the same string.
\<close>

lemma replace_maths_stuck:
  assumes "py_in (keyword ''math'') data"
    and "\<not> py_in (keyword ''math'' @ get_keyword_arg data ''math'' @ KEYWORD_DELIM_END) data"
  shows "replace_maths E self data = None"
proof (rule ccontr)
  assume "replace_maths E self data \<noteq> None"
  then obtain r where ret: "replace_maths E self data = Some r" by auto
  have "data \<noteq> data"
  proof (rule replace_maths.raw_induct [where P = "\<lambda>E' self' data' r'. data' \<noteq> data", OF _ ret])
    fix f E' self' data' r'
    assume IH: "\<And>E self' data' r. f E self' data' = Some r \<Longrightarrow> data' \<noteq> data"
      and eq: "(if py_in (keyword ''math'') data'
         then let arg = get_keyword_arg data' ''math'';
                  v = keyword ''math'' @ arg @ KEYWORD_DELIM_END;
                  r = get_math_arg E' self' data' ''math''
              in f E' (snd r) (py_replace v (py_format_d (fst r)) data')
         else Some (data', self')) = Some r'"
    show "data' \<noteq> data"
    proof
      assume d: "data' = data"
      with eq assms have "f E' (snd (get_math_arg E' self' data ''math'')) data = Some r'"
        by (simp add: Let_def py_replace_absent)
      from IH [OF this] show False by simp
    qed
  qed
  then show False by simp
qed


subsection \<open>\<open>_parse_raw_strings\<close> on an accepted string with a raw-string tag\<close>

lemma py_find_decomp:
  "py_find sub s = Some i \<Longrightarrow> \<exists>pre post. s = pre @ sub @ post \<and> length pre = i"
proof (induction s arbitrary: i)
  case Nil
  then show ?case by (simp split: if_splits)
next
  case (Cons c cs)
  show ?case
  proof (cases "prefix sub (c # cs)")
    case True
    with Cons.prems have "i = 0" by simp
    moreover from True obtain post where "c # cs = sub @ post" by (auto simp: prefix_def)
    ultimately show ?thesis by auto
  next
    case False
    with Cons.prems obtain j where j: "py_find sub cs = Some j" and i: "i = Suc j" by auto
    from Cons.IH [OF j] obtain pre post where "cs = pre @ sub @ post" "length pre = j" by blast
    then have "c # cs = (c # pre) @ sub @ post \<and> length (c # pre) = i" using i by simp
    then show ?thesis by blast
  qed
qed

lemma get_keyword_arg_present:
  assumes "get_keyword_arg data k \<noteq> []"
  shows "py_in (keyword k) data"
  using assms by (auto simp: get_keyword_arg_def keyword_def split: option.splits if_splits)

lemma keyword_raw: "keyword ''raw-string'' = ''{raw-string:''" "keyword ''raw-replace'' = ''{raw-replace}''"
  by code_simp+

lemma parse_raw_strings_accepted:
  assumes "\<not> ignore_smart_signatures self" and "is_valid E data"
    and "get_keyword_arg data ''raw-string'' \<noteq> []"
    and "match_int_pattern (get_keyword_arg data ''raw-size'')"
    and "str2int E (PyStr (get_keyword_arg data ''raw-size'')) = Some n"
  shows "\<exists>pre post. data = pre @ ''{raw-string:'' @ post
           \<and> py_find ''{raw-string:'' data = Some (length pre)
           \<and> parse_raw_strings E self data =
               Inr (py_replace ''{raw-replace}''
                      (''\"'' @ py_slice_to (get_keyword_arg data ''raw-string'') n @ ''\"'') pre)"
proof -
  from get_keyword_arg_present [OF assms(3)]
  obtain i where i: "py_find ''{raw-string:'' data = Some i"
    by (auto simp: py_in_def keyword_raw)
  from py_find_decomp [OF i] obtain pre post
    where d: "data = pre @ ''{raw-string:'' @ post" and l: "length pre = i" by blast
  from d l have t: "take i data = pre" by simp
  have "py_slice_to data (py_find_int ''{raw-string:'' data) = pre"
    by (simp add: py_find_int_def i py_slice_to_def t)
  with assms have "parse_raw_strings E self data =
               Inr (py_replace ''{raw-replace}''
                      (''\"'' @ py_slice_to (get_keyword_arg data ''raw-string'') n @ ''\"'') pre)"
    by (simp add: parse_raw_strings_def Let_def keyword_raw)
  with d i l show ?thesis by blast
qed

lemma parse_raw_strings_no_match:
  "\<not> match_int_pattern (get_keyword_arg data ''raw-size'') \<Longrightarrow>
     parse_raw_strings E self data = Inr data"
  by (simp add: parse_raw_strings_def Let_def)

subsection \<open>What the passes leave alone, and the stored key\<close>

lemma replace_maths_frame:
  assumes "replace_maths E self data = Some r"
  shows "last_one_of_many (snd r) = last_one_of_many self
       \<and> ignore_smart_signatures (snd r) = ignore_smart_signatures self"
proof (rule replace_maths.raw_induct
    [where P = "\<lambda>E self data r. last_one_of_many (snd r) = last_one_of_many self
       \<and> ignore_smart_signatures (snd r) = ignore_smart_signatures self", OF _ assms])
  fix f E self data r
  assume IH: "\<And>E self data r. f E self data = Some r \<Longrightarrow>
        last_one_of_many (snd r) = last_one_of_many self
        \<and> ignore_smart_signatures (snd r) = ignore_smart_signatures self"
    and eq: "(if py_in (keyword ''math'') data
         then let arg = get_keyword_arg data ''math'';
                  v = keyword ''math'' @ arg @ KEYWORD_DELIM_END;
                  r = get_math_arg E self data ''math''
              in f E (snd r) (py_replace v (py_format_d (fst r)) data)
         else Some (data, self)) = Some r"
  show "last_one_of_many (snd r) = last_one_of_many self
        \<and> ignore_smart_signatures (snd r) = ignore_smart_signatures self"
  proof (cases "py_in (keyword ''math'') data")
    case True
    with eq obtain d' where "f E (snd (get_math_arg E self data ''math'')) d' = Some r"
      by (auto simp: Let_def)
    from IH [OF this] show ?thesis by (simp add: get_math_arg_snd)
  next
    case False
    with eq show ?thesis by auto
  qed
qed

lemma resolve_frame:
  assumes "resolve E self data = Some (out, self')"
  shows "last_one_of_many self' = last_one_of_many self
       \<and> ignore_smart_signatures self' = ignore_smart_signatures self"
proof -
  from assms obtain d1 where "replace_maths E self data = Some (d1, self')"
    by (auto simp: resolve_def split: option.splits prod.splits sum.splits)
  from replace_maths_frame [OF this] show ?thesis by simp
qed

lemma extract_fields_snd:
  "snd (extract_fields E self data) =
     snd (one_of_many E (self\<lparr>self_valid := self_valid self \<and> math_ok E data ''adjust''
            \<and> math_ok E data ''filesize'' \<and> math_ok E data ''jump''\<rparr>) data)"
  by (simp add: extract_fields_def Let_def case_prod_beta get_math_arg_snd conj_assoc)

lemma one_of_many_fst_self_valid:
  "fst (one_of_many E (self\<lparr>self_valid := b\<rparr>) data) = fst (one_of_many E self data)"
  by (simp add: one_of_many_fst)

lemma extract_fields_duplicate:
  assumes "fst (one_of_many E self data)"
  shows "name (fst (extract_fields E self data)) = []
       \<and> description (fst (extract_fields E self data)) = []"
  using assms
  by (simp add: extract_fields_def Let_def case_prod_beta get_math_arg_snd
      one_of_many_fst_self_valid results0_def)

lemma one_of_many_ignore:
  "ignore_smart_signatures (snd (one_of_many E self data)) = ignore_smart_signatures self"
  by (simp add: one_of_many_def)

lemma no_comma_prefix:
  assumes "prefix k w" and "CHR '','' \<notin> set k"
  shows "prefix k (takeWhile (\<lambda>c. c \<noteq> CHR '','') w)"
proof -
  from assms(1) obtain r where "w = k @ r" by (auto simp: prefix_def)
  moreover from assms(2) have "\<forall>c \<in> set k. c \<noteq> CHR '',''" by auto
  ultimately show ?thesis by simp
qed

text \<open>
  The key the tracker holds after a string of the group is a prefix of every string with
  the same text before the first comma.
\<close>

lemma one_of_many_key_covers:
  assumes "valid_result E w1" and "py_in ''{one-of-many}'' w1" and "key_ok self"
    and "takeWhile (\<lambda>c. c \<noteq> CHR '','') w1 = takeWhile (\<lambda>c. c \<noteq> CHR '','') w2"
  shows "\<exists>k. last_one_of_many (snd (one_of_many E self w1)) = Some k \<and> prefix k w2"
proof (cases "fst (one_of_many E self w1)")
  case True
  then obtain k where k: "last_one_of_many self = Some k" "prefix k w1"
    by (auto simp: one_of_many_fst)
  with assms(3) have "CHR '','' \<notin> set k" by (simp add: key_ok_def)
  with k(2) have "prefix k (takeWhile (\<lambda>c. c \<noteq> CHR '','') w1)" by (rule no_comma_prefix)
  with assms(4) have "prefix k w2"
    using takeWhile_is_prefix [of "\<lambda>c. c \<noteq> CHR '',''" w2] by (auto intro: prefix_order.trans)
  with True k(1) assms(1) show ?thesis by (simp add: one_of_many_snd)
next
  case False
  with assms(1,2) have "last_one_of_many (snd (one_of_many E self w1))
      = Some (takeWhile (\<lambda>c. c \<noteq> CHR '','') w1)"
    by (simp add: one_of_many_snd keyword_one_of_many)
  with assms(4) show ?thesis by (simp add: takeWhile_is_prefix)
qed

text \<open>The stored key never holds a comma: true of a new parser and kept by every call.\<close>

lemma key_ok_init: "key_ok (init b)"
  by (simp add: key_ok_def init_def)

lemma one_of_many_key_ok: "key_ok self \<Longrightarrow> key_ok (snd (one_of_many E self data))"
  by (auto simp: key_ok_def one_of_many_snd dest: set_takeWhileD)

lemma parse_key_ok:
  assumes "parse E self data = Some (out, self')" and "key_ok self"
  shows "key_ok self'"
proof (cases "ignore_smart_signatures self \<or> \<not> is_valid E data")
  case True
  with assms show ?thesis by (auto simp: parse_def Let_def key_ok_def)
next
  case False
  let ?s = "self\<lparr>self_valid := True\<rparr>"
  from False assms(1) obtain o1 s1 where r: "resolve E ?s data = Some (o1, s1)"
    by (auto simp: parse_def Let_def split: option.splits)
  from resolve_frame [OF r] assms(2) have k1: "key_ok s1" by (simp add: key_ok_def)
  show ?thesis
  proof (cases o1)
    case (Inl e)
    with False assms(1) r k1 show ?thesis by (auto simp: parse_def Let_def)
  next
    case (Inr d)
    with False assms(1) r have "self' = snd (extract_fields E s1 d)"
      by (auto simp: parse_def Let_def case_prod_beta)
    moreover from k1 have "key_ok (s1\<lparr>self_valid := b\<rparr>)" for b by (simp add: key_ok_def)
    ultimately show ?thesis by (simp add: extract_fields_snd one_of_many_key_ok)
  qed
qed

section \<open>Injection containment\<close>

text \<open>
  Claim C1. When the quoted data of the input contains the opening delimiter \<open>{\<close> and
  the keyword text of some entry of \<open>KEYWORDS\<close>, \<open>parse\<close> with interpretation enabled
  returns the input itself as the description, every other field at its default and
  \<open>valid\<close> true: nothing is resolved or stripped, and the instance is left as it was but
  for \<open>self.valid\<close>, which is reset to true.
\<close>

theorem parse_rejected_is_verbatim:
  assumes "\<not> ignore_smart_signatures self"
    and "py_in ''{'' (get_quoted_strings E data)"
    and "(nm, kw) \<in> set KEYWORDS"
    and "py_in kw (get_quoted_strings E data)"
  shows "parse E self data =
           Some (Inr \<lparr>offset = [], description = data, name = [], delay = [],
                      extract_field = [], jump = 0, size_field = 0, adjust = 0, year = 0,
                      epoch = 0, valid = True\<rparr>,
                 self\<lparr>self_valid := True\<rparr>)"
proof -
  from assms(2) have "py_in KEYWORD_DELIM_START (get_quoted_strings E data)"
    by (simp add: KEYWORD_DELIM_START_def)
  then have "\<not> is_valid E data" using assms(3,4) by (rule is_valid_rejects)
  then show ?thesis by (simp add: parse_def Let_def results0_def)
qed

theorem parse_rejected_is_verbatim_witness:
  "\<not> ignore_smart_signatures fresh
   \<and> py_in ''{'' (get_quoted_strings std_env injected_input)
   \<and> (''jump'', ''{jump-to-offset:'') \<in> set KEYWORDS
   \<and> py_in ''{jump-to-offset:'' (get_quoted_strings std_env injected_input)
   \<and> parse std_env fresh injected_input =
           Some (Inr \<lparr>offset = [], description = injected_input, name = [], delay = [],
                      extract_field = [], jump = 0, size_field = 0, adjust = 0, year = 0,
                      epoch = 0, valid = True\<rparr>,
                 fresh)"
proof -
  have h1: "\<not> ignore_smart_signatures fresh" by (simp add: fresh_def init_def)
  have h2: "py_in ''{'' (get_quoted_strings std_env injected_input)" by code_simp
  have h3: "(''jump'', ''{jump-to-offset:'') \<in> set KEYWORDS" by (simp add: KEYWORDS_def)
  have h4: "py_in ''{jump-to-offset:'' (get_quoted_strings std_env injected_input)"
    by code_simp
  have h5: "fresh\<lparr>self_valid := True\<rparr> = fresh" by (simp add: fresh_def init_def)
  show ?thesis
    using h1 h2 h3 h4 parse_rejected_is_verbatim [OF h1 h2 h3 h4] by (simp only: h5 simp_thms)
qed

section \<open>Tag stripping\<close>




section \<open>The duplicate-candidate tracker\<close>

text \<open>
  Claim C3, as stated: a call is a duplicate only if the marker \<open>{one-of-many}\<close> is in
  the string, and a string without the marker clears the stored key. After
  \<open>abc,{one-of-many}\<close> the key is \<open>abc\<close>; the string \<open>abcdef\<close> has no marker, passes
  the filter, is a duplicate, and the key stays.
\<close>

theorem duplicate_without_marker:
  "parse std_env fresh ''abc,{one-of-many}'' =
     Some (Inr \<lparr>offset = [], description = ''abc,'', name = [], delay = [],
                extract_field = [], jump = 0, size_field = 0, adjust = 0, year = 0,
                epoch = 0, valid = True\<rparr>, keyed)
   \<and> last_one_of_many keyed = Some ''abc''
   \<and> valid_result std_env ''abcdef''
   \<and> \<not> py_in (keyword ''one-of-many'') ''abcdef''
   \<and> one_of_many std_env keyed ''abcdef'' = (True, keyed)"
  by code_simp

text \<open>
  Claim C3, amended: for a string that passes the filter, the call is a duplicate exactly
  when a group key is stored (empty or not) and the string starts with it, whether or
  not the marker is present, and the stored key is then kept. When the call is not a
  duplicate, the key becomes the text before the first comma if the marker is present,
  and is cleared if it is absent.
\<close>

theorem one_of_many_duplicate:
  assumes "valid_result E data"
  shows "(fst (one_of_many E self data) \<longleftrightarrow>
            (\<exists>k. last_one_of_many self = Some k \<and> prefix k data))
       \<and> (fst (one_of_many E self data) \<longrightarrow> snd (one_of_many E self data) = self)
       \<and> (\<not> fst (one_of_many E self data) \<longrightarrow>
            snd (one_of_many E self data) =
              self\<lparr>last_one_of_many :=
                     if py_in ''{one-of-many}'' data
                     then Some (takeWhile (\<lambda>c. c \<noteq> CHR '','') data) else None\<rparr>)"
  using assms by (simp add: one_of_many_fst one_of_many_snd keyword_one_of_many)

theorem one_of_many_duplicate_witness:
  "valid_result std_env ''abc,{one-of-many}''
   \<and> \<not> fst (one_of_many std_env fresh ''abc,{one-of-many}'')
   \<and> snd (one_of_many std_env fresh ''abc,{one-of-many}'') = keyed
   \<and> valid_result std_env ''abcdef''
   \<and> fst (one_of_many std_env keyed ''abcdef'')
   \<and> snd (one_of_many std_env keyed ''abcdef'') = keyed"
proof -
  have h1: "valid_result std_env ''abc,{one-of-many}''" by (simp add: std_env_def)
  have h2: "valid_result std_env ''abcdef''" by (simp add: std_env_def)
  have k: "last_one_of_many fresh = None" "last_one_of_many keyed = Some ''abc''"
    "fresh\<lparr>last_one_of_many := Some ''abc''\<rparr> = keyed"
    by (simp_all add: keyed_def fresh_def init_def)
  have p: "py_in ''{one-of-many}'' ''abc,{one-of-many}''" by code_simp
  from one_of_many_duplicate [OF h1, of fresh] one_of_many_duplicate [OF h2, of keyed] h1 h2
  show ?thesis by (simp add: k p)
qed

section \<open>Defaults on a string without tags\<close>

text \<open>
  Claim C9, as stated: every string without a tag keyword is returned as the
  description. With the key \<open>abc\<close> stored, the tag-free string \<open>abcdef\<close> is a duplicate
  and its description is empty.
\<close>

theorem tag_free_duplicate_is_suppressed:
  "parse std_env fresh ''abc,{one-of-many}'' =
     Some (Inr \<lparr>offset = [], description = ''abc,'', name = [], delay = [],
                extract_field = [], jump = 0, size_field = 0, adjust = 0, year = 0,
                epoch = 0, valid = True\<rparr>, keyed)
   \<and> \<not> list_ex (\<lambda>(nm, kw). py_in kw ''abcdef'') KEYWORDS
   \<and> parse std_env keyed ''abcdef'' =
     Some (Inr \<lparr>offset = [], description = [], name = [], delay = [],
                extract_field = [], jump = 0, size_field = 0, adjust = 0, year = 0,
                epoch = 0, valid = True\<rparr>, keyed)"
  by code_simp

text \<open>
  Claim C9, amended: for every string in which no keyword of \<open>KEYWORDS\<close> occurs and
  which the tracker does not classify as a duplicate (the filter rejects it, or no stored
  key is a prefix of it), \<open>parse\<close> returns \<open>jump\<close>, \<open>size\<close>, \<open>adjust\<close>, \<open>year\<close> and
  \<open>epoch\<close> 0, \<open>valid\<close> true, \<open>name\<close> empty and the string as the description. The
  conversion \<open>str2int\<close>, a parameter here, is taken to raise or to return 0 on the number
  0 and on the empty string.
\<close>

theorem parse_tag_free_defaults:
  assumes "\<not> list_ex (\<lambda>(nm, kw). py_in kw data) KEYWORDS"
    and "\<not> fst (one_of_many E self data)"
    and "str2int_or_0 E (PyInt 0) = 0"
    and "str2int_or_0 E (PyStr []) = 0"
  shows "map_option fst (parse E self data) =
           Some (Inr \<lparr>offset = [], description = data, name = [], delay = [],
                      extract_field = [], jump = 0, size_field = 0, adjust = 0, year = 0,
                      epoch = 0, valid = True\<rparr>)"
proof (cases "ignore_smart_signatures self \<or> \<not> is_valid E data")
  case True
  then show ?thesis by (auto simp: parse_def Let_def results0_def)
next
  case False
  let ?s = "self\<lparr>self_valid := True\<rparr>"
  note a = tag_free_absent [OF assms(1)]
  note g = get_keyword_arg_absent [OF a]
  have nd: "\<not> fst (one_of_many E ?s data)"
    using assms(2) by (simp add: one_of_many_fst)
  have st: "strip_tags s' data = data" for s'
    using a by (simp add: strip_tags_def fold_strip_tag_absent)
  have "extract_fields E ?s data =
      (\<lparr>offset = [], description = data, name = [], delay = [],
        extract_field = [], jump = 0, size_field = 0, adjust = 0, year = 0,
        epoch = 0, valid = True\<rparr>, snd (one_of_many E ?s data))"
    using nd
    by (simp add: extract_fields_def Let_def case_prod_beta get_math_arg_absent g assms(3,4)
        py_strip_Nil st results0_def one_of_many_snd)
  with False show ?thesis
    by (simp add: parse_def Let_def resolve_tag_free [OF assms(1)])
qed

theorem parse_tag_free_defaults_witness:
  "\<not> list_ex (\<lambda>(nm, kw). py_in kw ''ELF 32-bit'') KEYWORDS
   \<and> \<not> fst (one_of_many std_env keyed ''ELF 32-bit'')
   \<and> str2int_or_0 std_env (PyInt 0) = 0
   \<and> str2int_or_0 std_env (PyStr []) = 0
   \<and> map_option fst (parse std_env keyed ''ELF 32-bit'') =
           Some (Inr \<lparr>offset = [], description = ''ELF 32-bit'', name = [], delay = [],
                      extract_field = [], jump = 0, size_field = 0, adjust = 0, year = 0,
                      epoch = 0, valid = True\<rparr>)"
proof -
  have h1: "\<not> list_ex (\<lambda>(nm, kw). py_in kw ''ELF 32-bit'') KEYWORDS" by code_simp
  have h2: "\<not> fst (one_of_many std_env keyed ''ELF 32-bit'')" by code_simp
  have h3: "str2int_or_0 std_env (PyInt 0) = 0" by code_simp
  have h4: "str2int_or_0 std_env (PyStr []) = 0" by code_simp
  from h1 h2 h3 h4 parse_tag_free_defaults [OF h1 h2 h3 h4] show ?thesis by simp
qed

section \<open>Field extraction and the validity flag\<close>




section \<open>The math substitution pass\<close>

text \<open>
  Claim C4: the loop of the math pass ends on every string, also when the math keyword
  has no closing delimiter. On \<open>{math:1+1\<close> the loop looks for \<open>{math:1+1}\<close>, which
  is not in the string, replaces nothing and never ends: \<open>_replace_maths\<close> does not
  return, whatever the collaborators are, and neither does \<open>parse\<close>.
\<close>

theorem replace_maths_unclosed_diverges:
  "replace_maths E self unclosed_math = None
   \<and> parse std_env fresh unclosed_math = None"
proof -
  have a: "py_in (keyword ''math'') unclosed_math" by code_simp
  have b: "\<not> py_in (keyword ''math'' @ get_keyword_arg unclosed_math ''math'' @ KEYWORD_DELIM_END)
             unclosed_math" by code_simp
  have c: "replace_maths E' self' unclosed_math = None" for E' self'
    using a b by (rule replace_maths_stuck)
  have d: "\<not> ignore_smart_signatures fresh" by code_simp
  have e: "is_valid std_env unclosed_math" by code_simp
  from c parse_not_returning [OF d e c] show ?thesis by simp
qed



section \<open>The raw-string resolver\<close>

text \<open>
  Claim C7. On an accepted string whose raw-string tag has a non-empty argument: when the
  raw-size argument matches \<open>^-?[0-9]+$\<close> and converts to \<open>n\<close>, the result is the text
  before the first raw-string tag (the tag and all that follows it are dropped) with
  every \<open>{raw-replace}\<close> in it replaced by the raw-string argument sliced \<open>[:n]\<close>
  between double quotes; when the raw-size argument does not match, the string is
  returned unchanged.
\<close>

theorem parse_raw_strings_resolves:
  assumes "\<not> ignore_smart_signatures self" and "is_valid E data"
    and "get_keyword_arg data ''raw-string'' \<noteq> []"
  shows "(match_int_pattern (get_keyword_arg data ''raw-size'') \<longrightarrow>
          (\<forall>n. str2int E (PyStr (get_keyword_arg data ''raw-size'')) = Some n \<longrightarrow>
            (\<exists>pre post. data = pre @ ''{raw-string:'' @ post
               \<and> py_find ''{raw-string:'' data = Some (length pre)
               \<and> parse_raw_strings E self data =
                   Inr (py_replace ''{raw-replace}''
                     (''\"'' @ py_slice_to (get_keyword_arg data ''raw-string'') n @ ''\"'') pre))))
       \<and> (\<not> match_int_pattern (get_keyword_arg data ''raw-size'') \<longrightarrow>
            parse_raw_strings E self data = Inr data)"
  using parse_raw_strings_accepted [OF assms] parse_raw_strings_no_match by blast

theorem parse_raw_strings_resolves_witness:
  "\<not> ignore_smart_signatures fresh
   \<and> is_valid std_env raw_input
   \<and> get_keyword_arg raw_input ''raw-string'' = ''HELLOWORLD''
   \<and> match_int_pattern (get_keyword_arg raw_input ''raw-size'')
   \<and> str2int std_env (PyStr (get_keyword_arg raw_input ''raw-size'')) = Some 5
   \<and> (\<exists>pre post. raw_input = pre @ ''{raw-string:'' @ post
         \<and> py_find ''{raw-string:'' raw_input = Some (length pre)
         \<and> parse_raw_strings std_env fresh raw_input =
             Inr (py_replace ''{raw-replace}'' (''\"'' @ py_slice_to ''HELLOWORLD'' 5 @ ''\"'') pre))
   \<and> parse_raw_strings std_env fresh raw_input = Inr ''\"HELLO\"''
   \<and> is_valid std_env raw_input_bad_size
   \<and> get_keyword_arg raw_input_bad_size ''raw-string'' = ''HELLOWORLD''
   \<and> \<not> match_int_pattern (get_keyword_arg raw_input_bad_size ''raw-size'')
   \<and> parse_raw_strings std_env fresh raw_input_bad_size = Inr raw_input_bad_size"
proof -
  have h1: "\<not> ignore_smart_signatures fresh" by code_simp
  have h2: "is_valid std_env raw_input" by code_simp
  have h3: "get_keyword_arg raw_input ''raw-string'' = ''HELLOWORLD''" by code_simp
  have h4: "match_int_pattern (get_keyword_arg raw_input ''raw-size'')" by code_simp
  have h5: "str2int std_env (PyStr (get_keyword_arg raw_input ''raw-size'')) = Some 5"
    by code_simp
  have h6: "parse_raw_strings std_env fresh raw_input = Inr ''\"HELLO\"''" by code_simp
  have g2: "is_valid std_env raw_input_bad_size" by code_simp
  have g3: "get_keyword_arg raw_input_bad_size ''raw-string'' = ''HELLOWORLD''" by code_simp
  have g4: "\<not> match_int_pattern (get_keyword_arg raw_input_bad_size ''raw-size'')"
    by code_simp
  have n3: "get_keyword_arg raw_input ''raw-string'' \<noteq> []"
    "get_keyword_arg raw_input_bad_size ''raw-string'' \<noteq> []" by (simp_all add: h3 g3)
  from parse_raw_strings_resolves [OF h1 h2 n3(1)] h4 h5
  have a: "\<exists>pre post. raw_input = pre @ ''{raw-string:'' @ post
         \<and> py_find ''{raw-string:'' raw_input = Some (length pre)
         \<and> parse_raw_strings std_env fresh raw_input =
             Inr (py_replace ''{raw-replace}'' (''\"'' @ py_slice_to ''HELLOWORLD'' 5 @ ''\"'') pre)"
    unfolding h3 by blast
  from parse_raw_strings_resolves [OF h1 g2 n3(2)] g4
  have b: "parse_raw_strings std_env fresh raw_input_bad_size = Inr raw_input_bad_size"
    by blast
  from h1 h2 h3 h4 h5 h6 g2 g3 g4 a b show ?thesis by blast
qed

text \<open>
  Claim C10. When the raw size matches the pattern and converts to a negative integer
  \<open>-n\<close>, the text put between the quotes is the raw-string argument without its last
  \<open>n\<close> characters; when \<open>n\<close> is at least its length, nothing is between the quotes,
  and the string is still cut at the raw-string tag.
\<close>

theorem parse_raw_strings_negative_size:
  assumes "\<not> ignore_smart_signatures self" and "is_valid E data"
    and "get_keyword_arg data ''raw-string'' \<noteq> []"
    and "match_int_pattern (get_keyword_arg data ''raw-size'')"
    and "str2int E (PyStr (get_keyword_arg data ''raw-size'')) = Some (- int n)"
    and "0 < n"
  shows "\<exists>pre post. data = pre @ ''{raw-string:'' @ post
           \<and> py_find ''{raw-string:'' data = Some (length pre)
           \<and> parse_raw_strings E self data =
               Inr (py_replace ''{raw-replace}''
                      (''\"'' @ take (length (get_keyword_arg data ''raw-string'') - n)
                                 (get_keyword_arg data ''raw-string'') @ ''\"'') pre)
           \<and> (length (get_keyword_arg data ''raw-string'') \<le> n \<longrightarrow>
                parse_raw_strings E self data = Inr (py_replace ''{raw-replace}'' ''\"\"'' pre))"
proof -
  from assms(6) have "py_slice_to raw (- int n) = take (length raw - n) raw" for raw
    by (simp add: py_slice_to_def)
  with parse_raw_strings_accepted [OF assms(1-5)] show ?thesis by auto
qed

theorem parse_raw_strings_negative_size_witness:
  "\<not> ignore_smart_signatures fresh
   \<and> is_valid std_env raw_input_negative
   \<and> get_keyword_arg raw_input_negative ''raw-string'' = ''HELLOWORLD''
   \<and> match_int_pattern (get_keyword_arg raw_input_negative ''raw-size'')
   \<and> str2int std_env (PyStr (get_keyword_arg raw_input_negative ''raw-size'')) = Some (- int 3)
   \<and> (0::nat) < 3
   \<and> (\<exists>pre post. raw_input_negative = pre @ ''{raw-string:'' @ post
         \<and> parse_raw_strings std_env fresh raw_input_negative =
             Inr (py_replace ''{raw-replace}'' (''\"'' @ ''HELLOWO'' @ ''\"'') pre))
   \<and> parse_raw_strings std_env fresh raw_input_negative = Inr ''\"HELLOWO\"''
   \<and> parse_raw_strings std_env fresh raw_input_very_negative = Inr ''\"\"''"
proof -
  have h1: "\<not> ignore_smart_signatures fresh" by code_simp
  have h2: "is_valid std_env raw_input_negative" by code_simp
  have h3: "get_keyword_arg raw_input_negative ''raw-string'' = ''HELLOWORLD''" by code_simp
  have h4: "match_int_pattern (get_keyword_arg raw_input_negative ''raw-size'')" by code_simp
  have h5: "str2int std_env (PyStr (get_keyword_arg raw_input_negative ''raw-size''))
              = Some (- int 3)" by code_simp
  have h6: "(0::nat) < 3" by simp
  have h7: "parse_raw_strings std_env fresh raw_input_negative = Inr ''\"HELLOWO\"''"
    by code_simp
  have h8: "parse_raw_strings std_env fresh raw_input_very_negative = Inr ''\"\"''"
    by code_simp
  have n3: "get_keyword_arg raw_input_negative ''raw-string'' \<noteq> []" by (simp add: h3)
  from parse_raw_strings_negative_size [OF h1 h2 n3 h4 h5 h6]
  have a: "\<exists>pre post. raw_input_negative = pre @ ''{raw-string:'' @ post
         \<and> parse_raw_strings std_env fresh raw_input_negative =
             Inr (py_replace ''{raw-replace}'' (''\"'' @ ''HELLOWO'' @ ''\"'') pre)"
    unfolding h3 by auto
  from h1 h2 h3 h4 h5 h6 h7 h8 a show ?thesis by blast
qed

section \<open>Suppression of the later candidates of a group\<close>

text \<open>
  Claim C8, as stated: when two successive inputs contain the marker and agree before the
  first comma, the second call returns an empty name and description. The string-len
  pass cuts the string at its tag, so a marker behind that tag never reaches the tracker:
  no key is stored by the first call, and the second is described.
\<close>

theorem marker_after_string_len_not_suppressed:
  "valid_result std_env truncated_marker_input
   \<and> valid_result std_env truncated_marker_second
   \<and> py_in ''{one-of-many}'' truncated_marker_input
   \<and> py_in ''{one-of-many}'' truncated_marker_second
   \<and> takeWhile (\<lambda>c. c \<noteq> CHR '','') truncated_marker_input = ''a''
   \<and> takeWhile (\<lambda>c. c \<noteq> CHR '','') truncated_marker_second = ''a''
   \<and> parse std_env fresh truncated_marker_input =
       Some (Inr \<lparr>offset = [], description = ''a, '', name = [], delay = [],
                  extract_field = [], jump = 0, size_field = 0, adjust = 0, year = 0,
                  epoch = 0, valid = True\<rparr>, fresh)
   \<and> parse std_env fresh truncated_marker_second =
       Some (Inr \<lparr>offset = [], description = ''a, b'', name = [], delay = [],
                  extract_field = [], jump = 0, size_field = 0, adjust = 0, year = 0,
                  epoch = 0, valid = True\<rparr>, fresh)"
  by code_simp

text \<open>
  Claim C8, amended: take two successive calls with interpretation enabled, on inputs
  the validator accepts, and the strings \<open>w1\<close> and \<open>w2\<close> they have become after the
  three substitution passes. If both pass the filter, \<open>w1\<close> contains the marker and the
  two agree before the first comma, then the second call returns an empty name and an
  empty description, while its \<open>jump\<close> and \<open>adjust\<close> are the values of the jump and
  adjust arguments of \<open>w2\<close>. (The stored key is assumed to hold no comma, as it does in
  every state a parser can reach.)
\<close>

theorem second_of_group_suppressed:
  assumes "\<not> ignore_smart_signatures self" and "key_ok self"
    and "is_valid E d1" and "is_valid E d2"
    and "resolve E (self\<lparr>self_valid := True\<rparr>) d1 = Some (Inr w1, s1)"
    and "parse E self d1 = Some (out1, self1)"
    and "resolve E (self1\<lparr>self_valid := True\<rparr>) d2 = Some (Inr w2, s2)"
    and "valid_result E w1" and "valid_result E w2"
    and "py_in ''{one-of-many}'' w1"
    and "takeWhile (\<lambda>c. c \<noteq> CHR '','') w1 = takeWhile (\<lambda>c. c \<noteq> CHR '','') w2"
  shows "\<exists>res2 self2. parse E self1 d2 = Some (Inr res2, self2)
           \<and> name res2 = [] \<and> description res2 = []
           \<and> jump res2 = fst (get_math_arg E s2 w2 ''jump'')
           \<and> adjust res2 = fst (get_math_arg E s2 w2 ''adjust'')"
proof -
  from parse_accepted [OF assms(1,3,5)] assms(6)
  have s: "self1 = snd (extract_fields E s1 w1)" by simp
  from resolve_frame [OF assms(5)]
  have f1: "last_one_of_many s1 = last_one_of_many self"
    "ignore_smart_signatures s1 = ignore_smart_signatures self" by simp_all
  let ?t = "s1\<lparr>self_valid := self_valid s1 \<and> math_ok E w1 ''adjust''
            \<and> math_ok E w1 ''filesize'' \<and> math_ok E w1 ''jump''\<rparr>"
  from assms(2) f1 have "key_ok ?t" by (simp add: key_ok_def)
  from one_of_many_key_covers [OF assms(8,10) this assms(11)] s
  obtain k where k: "last_one_of_many self1 = Some k" "prefix k w2"
    by (auto simp: extract_fields_snd)
  from s f1 assms(1) have en: "\<not> ignore_smart_signatures self1"
    by (simp add: extract_fields_snd one_of_many_ignore)
  from resolve_frame [OF assms(7)] k have "last_one_of_many s2 = Some k" by simp
  with k(2) assms(9) have dup: "fst (one_of_many E s2 w2)" by (simp add: one_of_many_fst)
  from parse_accepted [OF en assms(4,7)] extract_fields_duplicate [OF dup]
  show ?thesis by (simp add: extract_fields_jump extract_fields_adjust)
qed

theorem second_of_group_suppressed_witness:
  "\<not> ignore_smart_signatures fresh \<and> key_ok fresh
   \<and> is_valid std_env group_first \<and> is_valid std_env group_second
   \<and> resolve std_env (fresh\<lparr>self_valid := True\<rparr>) group_first = Some (Inr group_first, fresh)
   \<and> parse std_env fresh group_first =
       Some (Inr \<lparr>offset = [], description = ''abc, first'', name = [], delay = [],
                  extract_field = [], jump = 4, size_field = 0, adjust = 0, year = 0,
                  epoch = 0, valid = True\<rparr>, keyed)
   \<and> resolve std_env (keyed\<lparr>self_valid := True\<rparr>) group_second = Some (Inr group_second, keyed)
   \<and> valid_result std_env group_first \<and> valid_result std_env group_second
   \<and> py_in ''{one-of-many}'' group_first
   \<and> takeWhile (\<lambda>c. c \<noteq> CHR '','') group_first = takeWhile (\<lambda>c. c \<noteq> CHR '','') group_second
   \<and> (\<exists>res2 self2. parse std_env keyed group_second = Some (Inr res2, self2)
           \<and> name res2 = [] \<and> description res2 = [] \<and> jump res2 = 8 \<and> adjust res2 = 2)"
proof -
  have h1: "\<not> ignore_smart_signatures fresh" by code_simp
  have h2: "key_ok fresh" by code_simp
  have h3: "is_valid std_env group_first" by code_simp
  have h4: "is_valid std_env group_second" by code_simp
  have h5: "resolve std_env (fresh\<lparr>self_valid := True\<rparr>) group_first
              = Some (Inr group_first, fresh)" by code_simp
  have h6: "parse std_env fresh group_first =
       Some (Inr \<lparr>offset = [], description = ''abc, first'', name = [], delay = [],
                  extract_field = [], jump = 4, size_field = 0, adjust = 0, year = 0,
                  epoch = 0, valid = True\<rparr>, keyed)" by code_simp
  have h7: "resolve std_env (keyed\<lparr>self_valid := True\<rparr>) group_second
              = Some (Inr group_second, keyed)" by code_simp
  have h8: "valid_result std_env group_first" by code_simp
  have h9: "valid_result std_env group_second" by code_simp
  have h10: "py_in ''{one-of-many}'' group_first" by code_simp
  have h11: "takeWhile (\<lambda>c. c \<noteq> CHR '','') group_first
               = takeWhile (\<lambda>c. c \<noteq> CHR '','') group_second" by code_simp
  have j: "fst (get_math_arg std_env keyed group_second ''jump'') = 8" by code_simp
  have a: "fst (get_math_arg std_env keyed group_second ''adjust'') = 2" by code_simp
  from second_of_group_suppressed [OF h1 h2 h3 h4 h5 h6 h7 h8 h9 h10 h11]
  have c: "\<exists>res2 self2. parse std_env keyed group_second = Some (Inr res2, self2)
           \<and> name res2 = [] \<and> description res2 = [] \<and> jump res2 = 8 \<and> adjust res2 = 2"
    unfolding j a .
  from h1 h2 h3 h4 h5 h6 h7 h8 h9 h10 h11 c show ?thesis by blast
qed

end
